theory Spec2Isabelle
  imports Main "HOL-Library.Sublist"
begin

section \<open>Python values, errors and results\<close>

text \<open>
  The exceptions the modelled code can raise. \<open>AttributeError\<close> is what Python raises
  for an attribute read on \<open>None\<close> (or on an object without that attribute),
  \<open>TypeError\<close> for arithmetic on operands of the wrong type, \<open>OverflowError\<close> for a
  \<open>datetime\<close> outside the representable range, \<open>MultipleResultsFound\<close> is SQLAlchemy's
  error of \<open>one_or_none()\<close>, and \<open>ValidationError\<close> is marshmallow's.
\<close>

datatype error =
    AttributeError
  | TypeError
  | OverflowError
  | MultipleResultsFound
  | ValidationError

text \<open>A call either raises (\<open>Inl\<close>) or returns (\<open>Inr\<close>).\<close>

type_synonym 'a result = "error + 'a"

definition bind_result :: "'a result \<Rightarrow> ('a \<Rightarrow> 'b result) \<Rightarrow> 'b result" where
  "bind_result r f = (case r of Inl e \<Rightarrow> Inl e | Inr x \<Rightarrow> f x)"

text \<open>
  The dynamically typed values that travel through the extra columns of a result row and
  end up in the annotation attributes of a topic: \<open>None\<close>, a \<open>bool\<close>, an \<open>int\<close> or a
  \<open>datetime\<close> (microseconds since 0001-01-01T00:00:00, the least \<open>datetime\<close>).
\<close>

datatype pyval = PyNone | PyBool bool | PyInt int | PyDatetime int

text \<open>
  An attribute that Python code assigns on an object at run time: before the first
  assignment it does not exist (\<open>Unset\<close>).
\<close>

datatype 'a attr = Unset | Attr 'a

section \<open>The data model\<close>

subsection \<open>Label trees\<close>

text \<open>
  \<open>sqlalchemy_utils.Ltree\<close> wraps a path string of labels separated by dots; \<open>str\<close> of
  it is that string. PostgreSQL's \<open>a <@ b\<close> (SQLAlchemy's \<open>a.descendant_of(b)\<close>) holds
  when \<open>a\<close> is \<open>b\<close> or a descendant of it: the labels of \<open>b\<close> are a prefix of those
  of \<open>a\<close>.
\<close>

datatype Ltree = Ltree string

fun str_Ltree :: "Ltree \<Rightarrow> string" where
  "str_Ltree (Ltree p) = p"

fun labels :: "string \<Rightarrow> string list" where
  "labels [] = [[]]"
| "labels (c # cs) =
     (if c = CHR ''.'' then [] # labels cs
      else (case labels cs of [] \<Rightarrow> [[c]] | l # ls \<Rightarrow> (c # l) # ls))"

definition ltree_descendant_of :: "Ltree \<Rightarrow> Ltree \<Rightarrow> bool" where
  "ltree_descendant_of a b = prefix (labels (str_Ltree b)) (labels (str_Ltree a))"

subsection \<open>Sort options and periods\<close>

text \<open>
  \<open>TopicSortOption\<close> is declared in \<open>tildes.enums\<close>; the code names the four members
  \<open>VOTES\<close>, \<open>COMMENTS\<close>, \<open>NEW\<close> and \<open>ACTIVITY\<close>. Python does not enforce the
  annotation \<open>sort: TopicSortOption\<close>, so \<open>OTHER name\<close> stands for any value that
  compares unequal to all four: a further member of the enum, or a value of another type.
\<close>

datatype TopicSortOption = VOTES | COMMENTS | NEW | ACTIVITY | OTHER string

text \<open>
  Modelled from the spec: \<open>tildes.lib.datetime.SimpleHoursPeriod\<close>, "a duration expressed
  in whole hours", whose \<open>timedelta\<close> attribute is that duration; here in microseconds.
\<close>

datatype SimpleHoursPeriod = SimpleHoursPeriod (hours: int)

definition timedelta :: "SimpleHoursPeriod \<Rightarrow> int" where
  "timedelta p = hours p * 3600000000"

text \<open>
  \<open>datetime - timedelta\<close> raises \<open>OverflowError\<close> when the difference leaves the range
  from 0001-01-01T00:00:00 to 9999-12-31T23:59:59.999999.
\<close>

definition DATETIME_MAX :: int where
  "DATETIME_MAX = 315537897599999999"

definition datetime_sub :: "int \<Rightarrow> int \<Rightarrow> int result" where
  "datetime_sub t d =
     (if t - d < 0 \<or> DATETIME_MAX < t - d then Inl OverflowError else Inr (t - d))"

subsection \<open>Rows of the database\<close>

record Group =
  group_id :: int
  path :: Ltree

text \<open>
  A \<open>Topic\<close> object: its columns (\<open>topic_group_id\<close> is the column \<open>Topic.group_id\<close>,
  \<open>tags\<close> the column \<open>Topic._tags\<close>) and the three annotation attributes that
  \<open>_process_result\<close> assigns on the object.
\<close>

record Topic =
  topic_id :: int
  topic_group_id :: int
  created_time :: int
  last_activity_time :: int
  num_votes :: int
  num_comments :: int
  is_pinned :: bool
  tags :: "Ltree list"
  user_voted :: "pyval attr"
  last_visit_time :: "pyval attr"
  comments_since_last_visit :: "pyval attr"

record TopicVote =
  vote_topic_id :: int
  vote_user_id :: int

record TopicVisit =
  visit_topic_id :: int
  visit_user_id :: int
  visit_time :: int
  visit_num_comments :: int

record UserGroupSettings =
  settings_user_id :: int
  settings_group_id :: int
  default_order :: "TopicSortOption option"
  default_period :: "string option"

record User =
  user_id :: int
  track_comment_visits :: bool
  home_default_order :: "TopicSortOption option"
  home_default_period :: "string option"
  subscriptions :: "Group list"

record Database =
  topics :: "Topic list"
  groups :: "Group list"
  topic_votes :: "TopicVote list"
  topic_visits :: "TopicVisit list"
  user_group_settings :: "UserGroupSettings list"

subsection \<open>The request\<close>

text \<open>
  \<open>request.context\<close> is a \<open>Group\<close> on the group route and another object on the home
  route; \<open>request.user\<close> is \<open>None\<close> for an anonymous viewer.
\<close>

datatype Context = GroupContext Group | OtherContext

record Request =
  user :: "User option"
  context' :: Context
  matched_route_name :: string

section \<open>Default settings of a listing (views/topic.py)\<close>

record DefaultSettings =
  order :: TopicSortOption
  period :: "SimpleHoursPeriod option"

text \<open>
  \<open>Query.one_or_none()\<close>: no row gives \<open>None\<close>, one row gives the row, more raise.
\<close>

fun one_or_none :: "'a list \<Rightarrow> 'a option result" where
  "one_or_none [] = Inr None"
| "one_or_none [x] = Inr (Some x)"
| "one_or_none (x # y # zs) = Inl MultipleResultsFound"

text \<open>
  The rows of \<open>UserGroupSettings\<close> for (viewer, group). For an anonymous viewer the
  comparison \<open>UserGroupSettings.user == None\<close> selects no row.
\<close>

definition settings_rows :: "Database \<Rightarrow> User option \<Rightarrow> Group \<Rightarrow> UserGroupSettings list" where
  "settings_rows db viewer g =
     (case viewer of
        None \<Rightarrow> []
      | Some u \<Rightarrow>
          filter (\<lambda>s. settings_user_id s = user_id u \<and> settings_group_id s = group_id g)
            (user_group_settings db))"

text \<open>Lines 266-276: the settings row, only looked up when the context is a group.\<close>

definition lookup_user_settings :: "Database \<Rightarrow> Request \<Rightarrow> UserGroupSettings option result" where
  "lookup_user_settings db request =
     (case context' request of
        GroupContext g \<Rightarrow> one_or_none (settings_rows db (user request) g)
      | OtherContext \<Rightarrow> Inr None)"

text \<open>
  Python truthiness of an optional string, as the value to use: \<open>None\<close> and the empty
  string are false.
\<close>

fun truthy_str :: "string option \<Rightarrow> string option" where
  "truthy_str None = None"
| "truthy_str (Some s) = (if s = [] then None else Some s)"

text \<open>
  \<open>_get_default_settings(request, order)\<close>. The argument \<open>order\<close> is \<open>None\<close> for
  marshmallow's \<open>missing\<close>. \<open>ShortTimePeriod().deserialize\<close> (tildes.schemas.fields) is
  the parameter \<open>deserialize\<close>: it may raise, and may return \<open>None\<close>. Reading an
  attribute of \<open>request.user\<close> raises for an anonymous viewer.
\<close>

definition get_default_settings ::
  "(string \<Rightarrow> SimpleHoursPeriod option result) \<Rightarrow> Database \<Rightarrow> Request \<Rightarrow>
     TopicSortOption option \<Rightarrow> DefaultSettings result" where
  "get_default_settings deserialize db request order_arg =
     bind_result (lookup_user_settings db request) (\<lambda>user_settings.
     bind_result
       (case (case user_settings of None \<Rightarrow> None | Some s \<Rightarrow> default_order s) of
          Some o1 \<Rightarrow> Inr o1
        | None \<Rightarrow>
            (case user request of
               None \<Rightarrow> Inl AttributeError
             | Some u \<Rightarrow>
                 (case home_default_order u of
                    Some o2 \<Rightarrow> Inr o2
                  | None \<Rightarrow> Inr ACTIVITY)))
       (\<lambda>default_order'.
     let order' = (case order_arg of None \<Rightarrow> default_order' | Some o3 \<Rightarrow> o3) in
     bind_result
       (case (case user_settings of None \<Rightarrow> None | Some s \<Rightarrow> truthy_str (default_period s)) of
          Some user_default \<Rightarrow> deserialize user_default
        | None \<Rightarrow>
            (case user request of
               None \<Rightarrow> Inl AttributeError
             | Some u \<Rightarrow>
                 (case truthy_str (home_default_period u) of
                    Some user_default \<Rightarrow> deserialize user_default
                  | None \<Rightarrow>
                      if order' = NEW then Inr None
                      else if order' = ACTIVITY then Inr (Some (SimpleHoursPeriod 72))
                      else Inr (Some (SimpleHoursPeriod 24)))))
       (\<lambda>default_period'.
     Inr \<lparr>order = default_order', period = default_period'\<rparr>)))"

section \<open>The topic query (models/topic/topic_query.py)\<close>

subsection \<open>Query state\<close>

text \<open>
  The conditions the methods add with SQLAlchemy's \<open>filter\<close>, which joins them by AND:
  \<^item> \<open>GroupIdInSubgroups paths\<close>: \<open>Topic.group_id\<close> is among the ids of the groups whose
    path descends from one of \<open>paths\<close>;
  \<^item> \<open>CreatedTimeGt t\<close>: \<open>Topic.created_time > t\<close>;
  \<^item> \<open>TagsDescendantOf s\<close>: \<open>Topic._tags\<close> contains a descendant of the tree \<open>s\<close>;
  \<^item> \<open>IsPinnedEq b\<close>: \<open>Topic.is_pinned == b\<close>.
\<close>

datatype criterion =
    GroupIdInSubgroups "Ltree list"
  | CreatedTimeGt int
  | TagsDescendantOf string
  | IsPinnedEq bool

text \<open>The column \<open>_sort_column\<close> points to.\<close>

datatype sort_column = Topic_num_votes | Topic_num_comments | Topic_created_time
  | Topic_last_activity_time

text \<open>
  The expressions \<open>add_columns\<close> receives: the EXISTS subquery over \<open>TopicVote\<close> for a
  viewer (\<open>None\<close> when \<open>request.user\<close> is), the two columns of the joined
  \<open>TopicVisit\<close>, and a literal NULL.
\<close>

datatype column_expr =
    Exists_TopicVote "int option"
  | TopicVisit_visit_time
  | TopicVisit_num_comments
  | Null_literal

text \<open>
  A \<open>TopicQuery\<close>: the request it was made for, the conditions, the viewer whose
  \<open>TopicVisit\<close> rows are outer-joined (if any), the labelled extra columns, and the sort
  state.
\<close>

record TopicQuery =
  request :: Request
  criteria :: "criterion list"
  visit_join :: "int option"
  extra_columns :: "(string \<times> column_expr) list"
  sort_by :: sort_column
  sort_desc :: bool

text \<open>
  Modelled from the spec: the constructor of \<open>PaginatedQuery\<close> (tildes.models.pagination),
  which sets the sort state of a new query; "zero sort overrides" give the order
  "activity", descending.
\<close>

definition TopicQuery_init :: "Request \<Rightarrow> TopicQuery" where
  "TopicQuery_init req =
     \<lparr>request = req, criteria = [], visit_join = None, extra_columns = [],
      sort_by = Topic_last_activity_time, sort_desc = True\<rparr>"

definition query_filter :: "TopicQuery \<Rightarrow> criterion \<Rightarrow> TopicQuery" where
  "query_filter q c = q\<lparr>criteria := criteria q @ [c]\<rparr>"

definition add_columns :: "TopicQuery \<Rightarrow> (string \<times> column_expr) list \<Rightarrow> TopicQuery" where
  "add_columns q cols = q\<lparr>extra_columns := extra_columns q @ cols\<rparr>"

definition outerjoin_TopicVisit :: "TopicQuery \<Rightarrow> int \<Rightarrow> TopicQuery" where
  "outerjoin_TopicVisit q uid = q\<lparr>visit_join := Some uid\<rparr>"

subsection \<open>Extra data of the viewer\<close>

definition attach_vote_data :: "TopicQuery \<Rightarrow> TopicQuery" where
  "attach_vote_data q =
     add_columns q
       [(''user_voted'', Exists_TopicVote (map_option user_id (user (request q))))]"

definition attach_visit_data :: "TopicQuery \<Rightarrow> TopicQuery result" where
  "attach_visit_data q =
     (case user (request q) of
        None \<Rightarrow> Inl AttributeError
      | Some u \<Rightarrow>
          if track_comment_visits u
          then Inr (add_columns (outerjoin_TopicVisit q (user_id u))
                 [(''visit_time'', TopicVisit_visit_time),
                  (''num_comments'', TopicVisit_num_comments)])
          else Inr (add_columns q
                 [(''visit_time'', Null_literal), (''num_comments'', Null_literal)]))"

definition attach_extra_data :: "TopicQuery \<Rightarrow> TopicQuery result" where
  "attach_extra_data q =
     (if user (request q) = None then Inr q
      else attach_visit_data (attach_vote_data q))"

subsection \<open>Generative methods\<close>

definition apply_sort_option :: "TopicSortOption \<Rightarrow> bool \<Rightarrow> TopicQuery \<Rightarrow> TopicQuery result" where
  "apply_sort_option sort' desc q =
     (let q1 =
        (if sort' = VOTES then q\<lparr>sort_by := Topic_num_votes\<rparr>
         else if sort' = COMMENTS then q\<lparr>sort_by := Topic_num_comments\<rparr>
         else if sort' = NEW then q\<lparr>sort_by := Topic_created_time\<rparr>
         else if sort' = ACTIVITY then q\<lparr>sort_by := Topic_last_activity_time\<rparr>
         else q)
      in Inr (q1\<lparr>sort_desc := desc\<rparr>))"

definition inside_groups :: "Group list \<Rightarrow> TopicQuery \<Rightarrow> TopicQuery result" where
  "inside_groups gs q =
     (let query_paths = map path gs
      in Inr (query_filter q (GroupIdInSubgroups query_paths)))"

text \<open>
  \<open>inside_time_period\<close> reads the clock (\<open>utc_now()\<close>): \<open>now\<close> is that reading.
  \<open>period.timedelta\<close> on \<open>None\<close> raises.
\<close>

definition inside_time_period ::
  "int \<Rightarrow> SimpleHoursPeriod option \<Rightarrow> TopicQuery \<Rightarrow> TopicQuery result" where
  "inside_time_period now period_arg q =
     (case period_arg of
        None \<Rightarrow> Inl AttributeError
      | Some p \<Rightarrow>
          bind_result (datetime_sub now (timedelta p))
            (\<lambda>start. Inr (query_filter q (CreatedTimeGt start))))"

text \<open>\<open>str(tag)\<close>: the path of an \<open>Ltree\<close>, and the four letters \<open>None\<close> for \<open>None\<close>.\<close>

fun str_tag :: "Ltree option \<Rightarrow> string" where
  "str_tag None = ''None''"
| "str_tag (Some t) = str_Ltree t"

definition has_tag :: "Ltree option \<Rightarrow> TopicQuery \<Rightarrow> TopicQuery result" where
  "has_tag tag q =
     (let tag' = str_tag tag
      in Inr (query_filter q (TagsDescendantOf tag')))"

definition is_pinned_q :: "bool \<Rightarrow> TopicQuery \<Rightarrow> TopicQuery result" where
  "is_pinned_q pinned q = Inr (query_filter q (IsPinnedEq pinned))"

subsection \<open>Executing a query\<close>

text \<open>
  What the database answers, in the order of the table (sorting and paging belong to
  \<open>PaginatedQuery\<close>): the topics that satisfy every condition, each joined with the
  viewer's \<open>TopicVisit\<close> rows when the query has the outer join (no such row leaves the
  joined columns NULL). A query without extra columns yields the \<open>Topic\<close> itself, one
  with them a keyed tuple of the topic and the labelled values.
\<close>

definition satisfies :: "Database \<Rightarrow> Topic \<Rightarrow> criterion \<Rightarrow> bool" where
  "satisfies db t c =
     (case c of
        GroupIdInSubgroups paths \<Rightarrow>
          topic_group_id t \<in>
            set (map group_id
              (filter (\<lambda>g. list_ex (\<lambda>p. ltree_descendant_of (path g) p) paths)
                (groups db)))
      | CreatedTimeGt start \<Rightarrow> start < created_time t
      | TagsDescendantOf s \<Rightarrow> list_ex (\<lambda>tg. ltree_descendant_of tg (Ltree s)) (tags t)
      | IsPinnedEq b \<Rightarrow> is_pinned t = b)"

definition matches :: "Database \<Rightarrow> TopicQuery \<Rightarrow> Topic \<Rightarrow> bool" where
  "matches db q t = list_all (satisfies db t) (criteria q)"

definition joined_visits :: "Database \<Rightarrow> TopicQuery \<Rightarrow> Topic \<Rightarrow> TopicVisit option list" where
  "joined_visits db q t =
     (case visit_join q of
        None \<Rightarrow> [None]
      | Some uid \<Rightarrow>
          (case filter (\<lambda>v. visit_topic_id v = topic_id t \<and> visit_user_id v = uid)
                  (topic_visits db) of
             [] \<Rightarrow> [None]
           | v # vs \<Rightarrow> map Some (v # vs)))"

definition eval_column :: "Database \<Rightarrow> Topic \<Rightarrow> TopicVisit option \<Rightarrow> column_expr \<Rightarrow> pyval" where
  "eval_column db t visit c =
     (case c of
        Exists_TopicVote viewer \<Rightarrow>
          PyBool (list_ex (\<lambda>v. vote_topic_id v = topic_id t \<and> Some (vote_user_id v) = viewer)
                    (topic_votes db))
      | TopicVisit_visit_time \<Rightarrow>
          (case visit of None \<Rightarrow> PyNone | Some v \<Rightarrow> PyDatetime (visit_time v))
      | TopicVisit_num_comments \<Rightarrow>
          (case visit of None \<Rightarrow> PyNone | Some v \<Rightarrow> PyInt (visit_num_comments v))
      | Null_literal \<Rightarrow> PyNone)"

datatype query_result = Entity Topic | KeyedTuple Topic "(string \<times> pyval) list"

definition make_row :: "Database \<Rightarrow> TopicQuery \<Rightarrow> Topic \<Rightarrow> TopicVisit option \<Rightarrow> query_result" where
  "make_row db q t visit =
     (if extra_columns q = [] then Entity t
      else KeyedTuple t (map (\<lambda>(l, c). (l, eval_column db t visit c)) (extra_columns q)))"

definition all_rows :: "Database \<Rightarrow> TopicQuery \<Rightarrow> query_result list" where
  "all_rows db q =
     concat (map (\<lambda>t. map (make_row db q t) (joined_visits db q t))
       (filter (matches db q) (topics db)))"

subsection \<open>Merging a row onto its topic\<close>

text \<open>Reading a column of a keyed tuple by its label.\<close>

definition getattr :: "(string \<times> pyval) list \<Rightarrow> string \<Rightarrow> pyval result" where
  "getattr cols name =
     (case map_of cols name of None \<Rightarrow> Inl AttributeError | Some v \<Rightarrow> Inr v)"

text \<open>
  \<open>int - x\<close> in Python: an \<open>int\<close>, or a \<open>bool\<close> counted as 0 or 1; anything else is a
  \<open>TypeError\<close>.
\<close>

fun int_sub :: "int \<Rightarrow> pyval \<Rightarrow> int result" where
  "int_sub n (PyInt k) = Inr (n - k)"
| "int_sub n (PyBool b) = Inr (n - (if b then 1 else 0))"
| "int_sub n PyNone = Inl TypeError"
| "int_sub n (PyDatetime d) = Inl TypeError"

text \<open>
  \<open>_process_result(result)\<close>. In the branch of a keyed tuple,
  \<open>comments_since_last_visit\<close> is assigned only when the column \<open>num_comments\<close> is not
  \<open>None\<close>; otherwise the attribute keeps the state it had on the topic object.
\<close>

fun process_result :: "query_result \<Rightarrow> Topic result" where
  "process_result (Entity topic) =
     Inr (topic\<lparr>user_voted := Attr (PyBool False),
                last_visit_time := Attr PyNone,
                comments_since_last_visit := Attr PyNone\<rparr>)"
| "process_result (KeyedTuple topic cols) =
     bind_result (getattr cols ''user_voted'') (\<lambda>voted.
     bind_result (getattr cols ''visit_time'') (\<lambda>visited.
     bind_result (getattr cols ''num_comments'') (\<lambda>result_num_comments.
       let topic1 = topic\<lparr>user_voted := Attr voted, last_visit_time := Attr visited\<rparr> in
       if result_num_comments \<noteq> PyNone
       then bind_result (int_sub (num_comments topic1) result_num_comments)
              (\<lambda>new_comments.
                 Inr (topic1\<lparr>comments_since_last_visit := Attr (PyInt (max new_comments 0))\<rparr>))
       else Inr topic1)))"

subsection \<open>A listing, from the query to the annotated topics\<close>

text \<open>Raising at the first element that raises, as a loop over the list does.\<close>

fun collect :: "'a result list \<Rightarrow> 'a list result" where
  "collect [] = Inr []"
| "collect (r # rs) =
     bind_result r (\<lambda>x. bind_result (collect rs) (\<lambda>xs. Inr (x # xs)))"

text \<open>
  Modelled from the spec: the iteration of \<open>ModelQuery\<close> (tildes.models.model_query), the
  "strict pipeline" build-query, execute, annotate-each-row: the extra data is attached,
  the query runs, and \<open>_process_result\<close> merges every row.
\<close>

definition annotated_topics :: "Database \<Rightarrow> TopicQuery \<Rightarrow> Topic list result" where
  "annotated_topics db q =
     bind_result (attach_extra_data q)
       (\<lambda>q'. collect (map process_result (all_rows db q')))"

section \<open>The listing view (views/topic.py)\<close>

text \<open>\<open>group.path\<close> of an element of \<open>groups\<close>: only a \<open>Group\<close> has the attribute.\<close>

fun group_of_context :: "Context \<Rightarrow> Group result" where
  "group_of_context (GroupContext g) = Inr g"
| "group_of_context OtherContext = Inl AttributeError"

text \<open>
  \<open>get_group_topics\<close>, lines 110 to 131: from the request to the query with its filters
  and its sort option (the cursors \<open>after_id36\<close> and \<open>before_id36\<close> and the page belong
  to \<open>PaginatedQuery\<close>; \<open>join_all_relationships\<close> only loads related rows eagerly).
  \<open>order_arg\<close> and \<open>period_arg\<close> are \<open>None\<close> for marshmallow's \<open>missing\<close>; a period
  that was given may itself be \<open>None\<close>.
\<close>

definition get_group_topics_query ::
  "(string \<Rightarrow> SimpleHoursPeriod option result) \<Rightarrow> int \<Rightarrow> Database \<Rightarrow> Request \<Rightarrow>
     TopicSortOption option \<Rightarrow> SimpleHoursPeriod option option \<Rightarrow> Ltree option \<Rightarrow>
     TopicQuery result" where
  "get_group_topics_query deserialize now db req order_arg period_arg tag =
     bind_result
       (if matched_route_name req = ''home''
        then (case user req of
                None \<Rightarrow> Inl AttributeError
              | Some u \<Rightarrow> Inr (map GroupContext (subscriptions u)))
        else Inr [context' req])
       (\<lambda>groups'.
     bind_result (get_default_settings deserialize db req order_arg) (\<lambda>default_settings.
     let order' = (case order_arg of None \<Rightarrow> order default_settings | Some o1 \<Rightarrow> o1);
         period' = (case period_arg of None \<Rightarrow> period default_settings | Some p1 \<Rightarrow> p1)
     in
     bind_result (collect (map group_of_context groups')) (\<lambda>gs.
     bind_result (inside_groups gs (TopicQuery_init req)) (\<lambda>q1.
     bind_result (inside_time_period now period' q1) (\<lambda>q2.
     bind_result (has_tag tag q2) (\<lambda>q3.
     apply_sort_option order' True q3))))))"

section \<open>The specification's rules, in its own words\<close>

text \<open>
  The default order: the order of the (viewer, group) settings row when the row exists
  with a non-null \<open>default_order\<close>, else the viewer's non-null \<open>home_default_order\<close>,
  else "activity".
\<close>

definition spec_default_order :: "UserGroupSettings option \<Rightarrow> User \<Rightarrow> TopicSortOption" where
  "spec_default_order row viewer =
     (case (case row of None \<Rightarrow> None | Some s \<Rightarrow> default_order s) of
        Some group_order \<Rightarrow> group_order
      | None \<Rightarrow>
          (case home_default_order viewer of
             Some home_order \<Rightarrow> home_order
           | None \<Rightarrow> ACTIVITY))"

text \<open>
  The order-dependent fallback of the period: "new" gives no time restriction,
  "activity" 72 hours, any other order 24 hours.
\<close>

definition spec_fallback_period :: "TopicSortOption \<Rightarrow> SimpleHoursPeriod option" where
  "spec_fallback_period ord =
     (case ord of
        NEW \<Rightarrow> None
      | ACTIVITY \<Rightarrow> Some (SimpleHoursPeriod 72)
      | _ \<Rightarrow> Some (SimpleHoursPeriod 24))"

text \<open>A stored period setting is present when it is neither null nor the empty string.\<close>

definition present :: "string option \<Rightarrow> bool" where
  "present setting = (setting \<noteq> None \<and> setting \<noteq> Some [])"

text \<open>
  The default period: the parsed per-group setting if present, else the parsed global
  setting if present, else the fallback on the caller's explicit order when one was
  supplied and on the resolved default order otherwise.
\<close>

definition spec_default_period ::
  "(string \<Rightarrow> SimpleHoursPeriod option result) \<Rightarrow> string option \<Rightarrow> string option \<Rightarrow>
     TopicSortOption option \<Rightarrow> TopicSortOption \<Rightarrow> SimpleHoursPeriod option result" where
  "spec_default_period deserialize group_setting global_setting explicit_order resolved_order =
     (if present group_setting then deserialize (the group_setting)
      else if present global_setting then deserialize (the global_setting)
      else Inr (spec_fallback_period
                  (case explicit_order of Some given \<Rightarrow> given | None \<Rightarrow> resolved_order)))"

section \<open>Notions for the statements\<close>

text \<open>
  The four filter operations of the query, as values, so that a statement can range over
  every pair of them. \<open>InsideTimePeriod\<close> carries the clock reading of its call.
\<close>

datatype filter_op =
    InsideGroups "Group list"
  | InsideTimePeriod int "SimpleHoursPeriod option"
  | HasTag "Ltree option"
  | IsPinned bool

fun apply_filter :: "filter_op \<Rightarrow> TopicQuery \<Rightarrow> TopicQuery result" where
  "apply_filter (InsideGroups gs) q = inside_groups gs q"
| "apply_filter (InsideTimePeriod now p) q = inside_time_period now p q"
| "apply_filter (HasTag tag) q = has_tag tag q"
| "apply_filter (IsPinned b) q = is_pinned_q b q"

text \<open>The rows a chain of calls ends with: none when a call raised.\<close>

definition result_set :: "Database \<Rightarrow> TopicQuery result \<Rightarrow> query_result list option" where
  "result_set db r = (case r of Inl e \<Rightarrow> None | Inr q \<Rightarrow> Some (all_rows db q))"

text \<open>
  What an operation adds to a query, or the error it raises: the query has no part in
  either.
\<close>

fun filter_criterion :: "filter_op \<Rightarrow> criterion result" where
  "filter_criterion (InsideGroups gs) = Inr (GroupIdInSubgroups (map path gs))"
| "filter_criterion (InsideTimePeriod now None) = Inl AttributeError"
| "filter_criterion (InsideTimePeriod now (Some p)) =
     map_sum id CreatedTimeGt (datetime_sub now (timedelta p))"
| "filter_criterion (HasTag tag) = Inr (TagsDescendantOf (str_tag tag))"
| "filter_criterion (IsPinned b) = Inr (IsPinnedEq b)"

text \<open>The annotation of a topic that came as a bare row.\<close>

definition anonymous_defaults :: "Topic \<Rightarrow> Topic" where
  "anonymous_defaults t =
     t\<lparr>user_voted := Attr (PyBool False), last_visit_time := Attr PyNone,
       comments_since_last_visit := Attr PyNone\<rparr>"

section \<open>Example data\<close>

text \<open>
  A parser of stored periods for the examples: "all" is no period, "12h" and "3d" are
  periods, anything else fails to parse.
\<close>

definition example_deserialize :: "string \<Rightarrow> SimpleHoursPeriod option result" where
  "example_deserialize s =
     (if s = ''all'' then Inr None
      else if s = ''12h'' then Inr (Some (SimpleHoursPeriod 12))
      else if s = ''3d'' then Inr (Some (SimpleHoursPeriod 72))
      else Inl ValidationError)"

definition example_group :: Group where
  "example_group = \<lparr>group_id = 1, path = Ltree ''music''\<rparr>"

definition example_user :: User where
  "example_user =
     \<lparr>user_id = 7, track_comment_visits = True, home_default_order = Some VOTES,
      home_default_period = None, subscriptions = [example_group]\<rparr>"

definition example_request :: Request where
  "example_request =
     \<lparr>user = Some example_user, context' = GroupContext example_group,
      matched_route_name = ''group''\<rparr>"

definition example_settings :: UserGroupSettings where
  "example_settings =
     \<lparr>settings_user_id = 7, settings_group_id = 1, default_order = Some COMMENTS,
      default_period = None\<rparr>"

definition empty_db :: Database where
  "empty_db = \<lparr>topics = [], groups = [example_group], topic_votes = [], topic_visits = [],
     user_group_settings = []\<rparr>"

definition example_db :: Database where
  "example_db = \<lparr>topics = [], groups = [example_group], topic_votes = [], topic_visits = [],
     user_group_settings = [example_settings]\<rparr>"

text \<open>
  A topic of the group, tagged \<open>music.jazz\<close>, with five comments, created an hour before
  the clock reading of the examples; as loaded, it has no annotation attribute yet.
\<close>

definition example_now :: int where
  "example_now = 63660000000000000"

definition example_topic :: Topic where
  "example_topic =
     \<lparr>topic_id = 10, topic_group_id = 1, created_time = 63659996400000000,
      last_activity_time = 63659998200000000, num_votes = 2, num_comments = 5,
      is_pinned = False, tags = [Ltree ''music.jazz''],
      user_voted = Unset, last_visit_time = Unset, comments_since_last_visit = Unset\<rparr>"

definition topic_db :: Database where
  "topic_db = \<lparr>topics = [example_topic], groups = [example_group], topic_votes = [],
     topic_visits = [], user_group_settings = []\<rparr>"

text \<open>
  The viewer of the examples voted on the topic and visited it when it had eight
  comments.
\<close>

definition example_visit :: TopicVisit where
  "example_visit =
     \<lparr>visit_topic_id = 10, visit_user_id = 7, visit_time = 63659998200000000,
      visit_num_comments = 8\<rparr>"

definition visit_db :: Database where
  "visit_db = \<lparr>topics = [example_topic], groups = [example_group],
     topic_votes = [\<lparr>vote_topic_id = 10, vote_user_id = 7\<rparr>],
     topic_visits = [example_visit], user_group_settings = []\<rparr>"

text \<open>A viewer who has visit tracking disabled, and an anonymous request.\<close>

definition untracked_user :: User where
  "untracked_user =
     \<lparr>user_id = 8, track_comment_visits = False, home_default_order = None,
      home_default_period = None, subscriptions = [example_group]\<rparr>"

definition untracked_request :: Request where
  "untracked_request =
     \<lparr>user = Some untracked_user, context' = GroupContext example_group,
      matched_route_name = ''group''\<rparr>"

definition anonymous_request :: Request where
  "anonymous_request =
     \<lparr>user = None, context' = GroupContext example_group, matched_route_name = ''group''\<rparr>"

text \<open>
  The same topic object after an earlier annotation left a count of three on it.
\<close>

definition stale_topic :: Topic where
  "stale_topic = example_topic\<lparr>comments_since_last_visit := Attr (PyInt 3)\<rparr>"

definition stale_db :: Database where
  "stale_db = \<lparr>topics = [stale_topic], groups = [example_group], topic_votes = [],
     topic_visits = [], user_group_settings = []\<rparr>"

text \<open>
  A viewer with the global period "3d", and a database whose settings row for the viewer
  and the group stores a given period.
\<close>

definition period_user :: User where
  "period_user = example_user\<lparr>home_default_period := Some ''3d''\<rparr>"

definition period_request :: Request where
  "period_request =
     \<lparr>user = Some period_user, context' = GroupContext example_group,
      matched_route_name = ''group''\<rparr>"

definition period_db :: "string option \<Rightarrow> Database" where
  "period_db group_period =
     \<lparr>topics = [], groups = [example_group], topic_votes = [], topic_visits = [],
      user_group_settings = [example_settings\<lparr>default_period := group_period\<rparr>]\<rparr>"

section \<open>Basic facts\<close>

lemma bind_result_simps [simp]:
  "bind_result (Inl e) f = Inl e"
  "bind_result (Inr x) f = f x"
  by (simp_all add: bind_result_def)

lemma fallback_eq:
  "(if ord = NEW then Inr None
    else if ord = ACTIVITY then Inr (Some (SimpleHoursPeriod 72))
    else Inr (Some (SimpleHoursPeriod 24))) = (Inr (spec_fallback_period ord) :: SimpleHoursPeriod option result)"
  by (cases ord) (simp_all add: spec_fallback_period_def)

lemma resolve_order:
  "user req = Some u \<Longrightarrow>
   (case (case row of None \<Rightarrow> None | Some s \<Rightarrow> default_order s) of
      Some o1 \<Rightarrow> Inr o1
    | None \<Rightarrow>
        (case user req of
           None \<Rightarrow> Inl AttributeError
         | Some u \<Rightarrow>
             (case home_default_order u of
                Some o2 \<Rightarrow> Inr o2
              | None \<Rightarrow> Inr ACTIVITY))) = (Inr (spec_default_order row u) :: TopicSortOption result)"
  by (simp add: spec_default_order_def split: option.splits)

lemma resolve_period:
  "user req = Some u \<Longrightarrow>
   (case (case row of None \<Rightarrow> None | Some s \<Rightarrow> truthy_str (default_period s)) of
      Some user_default \<Rightarrow> deserialize user_default
    | None \<Rightarrow>
        (case user req of
           None \<Rightarrow> Inl AttributeError
         | Some u \<Rightarrow>
             (case truthy_str (home_default_period u) of
                Some user_default \<Rightarrow> deserialize user_default
              | None \<Rightarrow> Inr (spec_fallback_period (case order_arg of None \<Rightarrow> ord | Some o3 \<Rightarrow> o3))))) =
   spec_default_period deserialize
     (case row of None \<Rightarrow> None | Some s \<Rightarrow> default_period s)
     (home_default_period u) order_arg ord"
proof -
  assume u: "user req = Some u"
  have t: "\<And>s. truthy_str s = (if present s then s else None)"
    subgoal for s by (cases s) (simp_all add: present_def)
    done
  have p: "\<not> present None" by (simp add: present_def)
  show ?thesis
  proof (cases row)
    case None
    then show ?thesis
      using u by (cases "home_default_period u"; cases order_arg)
        (simp_all add: t p spec_default_period_def)
  next
    case (Some s)
    then show ?thesis
      using u by (cases "default_period s"; cases "home_default_period u"; cases order_arg)
        (simp_all add: t p spec_default_period_def)
  qed
qed

lemma get_default_settings_logged_in:
  assumes "user req = Some u"
      and "lookup_user_settings db req = Inr row"
  shows "get_default_settings deserialize db req order_arg =
           map_sum id (\<lambda>p. \<lparr>order = spec_default_order row u, period = p\<rparr>)
             (spec_default_period deserialize
               (case row of None \<Rightarrow> None | Some s \<Rightarrow> default_period s)
               (home_default_period u) order_arg (spec_default_order row u))"
proof -
  let ?P = "spec_default_period deserialize
               (case row of None \<Rightarrow> None | Some s \<Rightarrow> default_period s)
               (home_default_period u) order_arg (spec_default_order row u)"
  have "get_default_settings deserialize db req order_arg =
          bind_result ?P (\<lambda>p. Inr \<lparr>order = spec_default_order row u, period = p\<rparr>)"
    unfolding get_default_settings_def Let_def fallback_eq
    by (simp only: assms(2) bind_result_simps resolve_order [OF assms(1)]
          resolve_period [OF assms(1)])
  also have "\<dots> = map_sum id (\<lambda>p. \<lparr>order = spec_default_order row u, period = p\<rparr>) ?P"
    by (cases ?P) simp_all
  finally show ?thesis .
qed

text \<open>
  The settings row the resolver finds, read off the database and the context: in the
  context of a group the rows of \<open>UserGroupSettings\<close> for the viewer and that group,
  of which there is at most one; in any other context none.
\<close>

lemma lookup_user_settings_rows:
  assumes "user req = Some u"
      and "rows =
             (case context' req of
                GroupContext g \<Rightarrow>
                  filter (\<lambda>s. settings_user_id s = user_id u \<and> settings_group_id s = group_id g)
                    (user_group_settings db)
              | OtherContext \<Rightarrow> [])"
  shows "lookup_user_settings db req = one_or_none rows"
  using assms
  by (cases "context' req") (simp_all add: lookup_user_settings_def settings_rows_def)

lemma one_or_none_short:
  "length rows \<le> 1 \<Longrightarrow> one_or_none rows = Inr (case rows of [] \<Rightarrow> None | s # _ \<Rightarrow> Some s)"
  by (cases rows rule: one_or_none.cases) simp_all

lemma one_or_none_Inr:
  "one_or_none rows = Inr row \<Longrightarrow>
   length rows \<le> 1 \<and> row = (case rows of [] \<Rightarrow> None | s # _ \<Rightarrow> Some s)"
  by (cases rows rule: one_or_none.cases) auto

section \<open>The default period\<close>

text \<open>
  C2. For every viewer and context, with \<open>rows\<close> the settings rows of the database for
  the viewer and the group of the context (none outside a group; at most one, the table's
  key): the period of the default settings is the parsed \<open>default_period\<close> of that row
  if present, else the parsed global \<open>home_default_period\<close> of the viewer if present,
  else the fallback on the explicit order when the caller gave one and on the resolved
  default order otherwise ("new" no period, "activity" 72 hours, any other order 24
  hours). A setting is present when it is neither null nor empty, Python's truth test; a
  parse error is propagated.
\<close>

theorem C2_default_period:
  assumes "user req = Some u"
      and "rows =
             (case context' req of
                GroupContext g \<Rightarrow>
                  filter (\<lambda>s. settings_user_id s = user_id u \<and> settings_group_id s = group_id g)
                    (user_group_settings db)
              | OtherContext \<Rightarrow> [])"
      and "length rows \<le> 1"
  shows "map_sum id period (get_default_settings deserialize db req order_arg) =
           spec_default_period deserialize
             (case rows of [] \<Rightarrow> None | s # _ \<Rightarrow> default_period s)
             (home_default_period u) order_arg
             (spec_default_order (case rows of [] \<Rightarrow> None | s # _ \<Rightarrow> Some s) u)"
proof -
  let ?row = "case rows of [] \<Rightarrow> None | s # _ \<Rightarrow> Some s"
  let ?P = "spec_default_period deserialize
               (case ?row of None \<Rightarrow> None | Some s \<Rightarrow> default_period s)
               (home_default_period u) order_arg (spec_default_order ?row u)"
  have l: "lookup_user_settings db req = Inr ?row"
    by (simp only: lookup_user_settings_rows [OF assms(1,2)] one_or_none_short [OF assms(3)])
  have "map_sum id period (get_default_settings deserialize db req order_arg) =
          map_sum id period
            (map_sum id (\<lambda>p. \<lparr>order = spec_default_order ?row u, period = p\<rparr>) ?P)"
    by (simp only: get_default_settings_logged_in [OF assms(1) l])
  also have "\<dots> = ?P"
    by (cases ?P) simp_all
  also have "(case ?row of None \<Rightarrow> None | Some s \<Rightarrow> default_period s) =
             (case rows of [] \<Rightarrow> None | s # _ \<Rightarrow> default_period s)"
    by (cases rows) simp_all
  finally show ?thesis .
qed

text \<open>
  The three steps on stored data: the group's row stores "12h" and the viewer "3d", and
  the group's period is used; with a null period in the group's row the viewer's "3d" is
  used; with no row and no global period the fallback applies, on the explicit order
  "new" (no period) and, with no explicit order, on the resolved order "votes" (24
  hours).
\<close>

theorem C2_default_period_witness:
  "user period_request = Some period_user \<and>
   context' period_request = GroupContext example_group \<and>
   filter (\<lambda>s. settings_user_id s = user_id period_user \<and>
                settings_group_id s = group_id example_group)
     (user_group_settings (period_db (Some ''12h''))) =
     [example_settings\<lparr>default_period := Some ''12h''\<rparr>] \<and>
   home_default_period period_user = Some ''3d'' \<and>
   map_sum id period
     (get_default_settings example_deserialize (period_db (Some ''12h'')) period_request
        (Some NEW)) = Inr (Some (SimpleHoursPeriod 12)) \<and>
   map_sum id period
     (get_default_settings example_deserialize (period_db None) period_request
        (Some NEW)) = Inr (Some (SimpleHoursPeriod 72)) \<and>
   user example_request = Some example_user \<and>
   user_group_settings empty_db = [] \<and>
   home_default_period example_user = None \<and>
   map_sum id period
     (get_default_settings example_deserialize empty_db example_request (Some NEW)) = Inr None \<and>
   map_sum id period
     (get_default_settings example_deserialize empty_db example_request None) =
     Inr (Some (SimpleHoursPeriod 24))"
proof -
  have u: "user period_request = Some period_user"
    and c: "context' period_request = GroupContext example_group"
    by (simp_all add: period_request_def)
  have f: "\<And>gp. filter (\<lambda>s. settings_user_id s = user_id period_user \<and>
                settings_group_id s = group_id example_group)
     (user_group_settings (period_db gp)) = [example_settings\<lparr>default_period := gp\<rparr>]"
    by (simp add: period_db_def example_settings_def period_user_def example_user_def
          example_group_def)
  have r: "\<And>gp. [example_settings\<lparr>default_period := gp\<rparr>] =
             (case context' period_request of
                GroupContext g \<Rightarrow>
                  filter (\<lambda>s. settings_user_id s = user_id period_user \<and>
                               settings_group_id s = group_id g)
                    (user_group_settings (period_db gp))
              | OtherContext \<Rightarrow> [])"
    by (simp add: c f)
  have n: "\<And>gp. length [example_settings\<lparr>default_period := gp\<rparr>] \<le> 1"
    by simp
  have h: "home_default_period period_user = Some ''3d''"
    by (simp add: period_user_def)
  have u0: "user example_request = Some example_user"
    by (simp add: example_request_def)
  have e0: "user_group_settings empty_db = []"
    by (simp add: empty_db_def)
  have r0: "[] =
             (case context' example_request of
                GroupContext g \<Rightarrow>
                  filter (\<lambda>s. settings_user_id s = user_id example_user \<and>
                               settings_group_id s = group_id g)
                    (user_group_settings empty_db)
              | OtherContext \<Rightarrow> [])"
    by (simp add: example_request_def e0)
  have n0: "length ([] :: UserGroupSettings list) \<le> 1"
    by simp
  have h0: "home_default_period example_user = None"
    and o0: "home_default_order example_user = Some VOTES"
    by (simp_all add: example_user_def)
  note a = C2_default_period [OF u r [of "Some ''12h''"] n [of "Some ''12h''"],
      where deserialize = example_deserialize and order_arg = "Some NEW"]
  note b = C2_default_period [OF u r [of None] n [of None],
      where deserialize = example_deserialize and order_arg = "Some NEW"]
  note d = C2_default_period [OF u0 r0 n0,
      where deserialize = example_deserialize and order_arg = "Some NEW"]
  note e = C2_default_period [OF u0 r0 n0,
      where deserialize = example_deserialize and order_arg = None]
  show ?thesis
    using u c f [of "Some ''12h''"] h u0 e0 h0
    by (simp add: a b d e h h0 o0 spec_default_period_def spec_default_order_def present_def
          spec_fallback_period_def example_deserialize_def)
qed

text \<open>
  Stored periods at work: the group's "12h" comes before the global "3d"; a null or
  empty group setting falls through to the global one; "all" parses to no period; an
  unparseable setting raises.
\<close>

lemma default_period_examples:
  "map_sum id period
     (get_default_settings example_deserialize (period_db (Some ''12h'')) period_request
        (Some NEW)) = Inr (Some (SimpleHoursPeriod 12))"
  "map_sum id period
     (get_default_settings example_deserialize (period_db None) period_request (Some NEW)) =
     Inr (Some (SimpleHoursPeriod 72))"
  "map_sum id period
     (get_default_settings example_deserialize (period_db (Some '''')) period_request
        (Some NEW)) = Inr (Some (SimpleHoursPeriod 72))"
  "map_sum id period
     (get_default_settings example_deserialize (period_db (Some ''all'')) period_request
        None) = Inr None"
  "get_default_settings example_deserialize (period_db (Some ''soon'')) period_request None =
     Inl ValidationError"
  by (simp_all add: get_default_settings_def lookup_user_settings_def settings_rows_def
        period_request_def period_db_def period_user_def example_settings_def
        example_user_def example_group_def example_deserialize_def)

section \<open>The default order\<close>

lemma default_settings_order_cases:
  assumes "user req = Some u"
      and "lookup_user_settings db req = Inr row"
  shows "case get_default_settings deserialize db req order_arg of
           Inr ds \<Rightarrow> order ds = spec_default_order row u
         | Inl e \<Rightarrow> (\<exists>s. deserialize s = Inl e)"
proof -
  let ?P = "spec_default_period deserialize
               (case row of None \<Rightarrow> None | Some s \<Rightarrow> default_period s)
               (home_default_period u) order_arg (spec_default_order row u)"
  show ?thesis
  proof (cases ?P)
    case (Inl e)
    then have "\<exists>s. deserialize s = Inl e"
      by (auto simp: spec_default_period_def split: if_splits)
    then show ?thesis
      by (simp add: get_default_settings_logged_in [OF assms] Inl)
  next
    case (Inr p)
    then show ?thesis
      by (simp add: get_default_settings_logged_in [OF assms])
  qed
qed

text \<open>
  C6. For a viewer in the context of a single group, with at most one settings row for
  (viewer, group): when the default settings are returned, their order is the row's
  \<open>default_order\<close> if the row exists and the order is not null, else the viewer's
  \<open>home_default_order\<close> if not null, else "activity"; so the group's order comes before
  the global one. The only other outcome is the error of parsing a stored period.
\<close>

theorem C6_default_order:
  assumes "user req = Some u"
      and "context' req = GroupContext g"
      and "filter (\<lambda>s. settings_user_id s = user_id u \<and> settings_group_id s = group_id g)
             (user_group_settings db) = rows"
      and "length rows \<le> 1"
  shows "case get_default_settings deserialize db req order_arg of
           Inr ds \<Rightarrow>
             order ds = spec_default_order (case rows of [] \<Rightarrow> None | s # _ \<Rightarrow> Some s) u
         | Inl e \<Rightarrow> (\<exists>s. deserialize s = Inl e)"
proof -
  have "one_or_none rows = Inr (case rows of [] \<Rightarrow> None | s # _ \<Rightarrow> Some s)"
    using assms(4) by (cases rows rule: one_or_none.cases) simp_all
  then have "lookup_user_settings db req =
               Inr (case rows of [] \<Rightarrow> None | s # _ \<Rightarrow> Some s)"
    using assms(1-3) by (simp add: lookup_user_settings_def settings_rows_def)
  from default_settings_order_cases [OF assms(1) this] show ?thesis .
qed

theorem C6_default_order_witness:
  "user example_request = Some example_user \<and>
   context' example_request = GroupContext example_group \<and>
   filter (\<lambda>s. settings_user_id s = user_id example_user \<and>
                settings_group_id s = group_id example_group)
     (user_group_settings example_db) = [example_settings] \<and>
   length [example_settings] \<le> 1 \<and>
   home_default_order example_user = Some VOTES \<and>
   default_order example_settings = Some COMMENTS \<and>
   map_sum id order (get_default_settings example_deserialize example_db example_request None) =
     Inr COMMENTS"
proof -
  have u: "user example_request = Some example_user"
    and c: "context' example_request = GroupContext example_group"
    by (simp_all add: example_request_def)
  have f: "filter (\<lambda>s. settings_user_id s = user_id example_user \<and>
                settings_group_id s = group_id example_group)
     (user_group_settings example_db) = [example_settings]"
    by (simp add: example_db_def example_settings_def example_user_def example_group_def)
  have n: "length [example_settings] \<le> 1" by simp
  have d: "\<And>s. example_deserialize s \<noteq> Inl AttributeError"
    by (simp add: example_deserialize_def)
  have o: "spec_default_order (Some example_settings) example_user = COMMENTS"
    by (simp add: spec_default_order_def example_settings_def)
  have r: "\<exists>ds. get_default_settings example_deserialize example_db example_request None = Inr ds"
    by (simp add: get_default_settings_def lookup_user_settings_def settings_rows_def
          example_request_def example_db_def example_settings_def example_user_def
          example_group_def)
  show ?thesis
    using u c f n o r C6_default_order [OF u c f n, of example_deserialize None]
    by (auto simp: example_user_def example_settings_def)
qed

section \<open>The explicit order and the returned pair\<close>

lemma lookup_anonymous:
  "user req = None \<Longrightarrow> lookup_user_settings db req = Inr None"
  by (simp add: lookup_user_settings_def settings_rows_def split: Context.splits)

lemma get_default_settings_anonymous:
  "user req = None \<Longrightarrow> get_default_settings deserialize db req order_arg = Inl AttributeError"
  by (simp add: get_default_settings_def lookup_anonymous)

lemma get_default_settings_lookup_fails:
  "lookup_user_settings db req = Inl e \<Longrightarrow>
   get_default_settings deserialize db req order_arg = Inl e"
  by (simp add: get_default_settings_def)

lemma spec_default_period_error:
  "spec_default_period deserialize gp hp arg1 ord = Inl e \<Longrightarrow>
   spec_default_period deserialize gp hp arg2 ord = Inl e"
  by (simp add: spec_default_period_def split: if_splits)

lemma default_settings_explicit_order:
  "map_sum id order (get_default_settings deserialize db req order_arg) =
     map_sum id order (get_default_settings deserialize db req None) \<and>
   (\<forall>ds. get_default_settings deserialize db req order_arg = Inr ds \<longrightarrow>
      (\<exists>u row. user req = Some u \<and> lookup_user_settings db req = Inr row \<and>
         order ds = spec_default_order row u \<and>
         spec_default_period deserialize
           (case row of None \<Rightarrow> None | Some s \<Rightarrow> default_period s)
           (home_default_period u) order_arg (spec_default_order row u) = Inr (period ds)))"
proof (cases "lookup_user_settings db req")
  case (Inl e)
  then show ?thesis
    by (simp add: get_default_settings_lookup_fails)
next
  case (Inr row)
  show ?thesis
  proof (cases "user req")
    case None
    then show ?thesis
      by (simp add: get_default_settings_anonymous)
  next
    case (Some u)
    let ?P = "\<lambda>arg. spec_default_period deserialize
           (case row of None \<Rightarrow> None | Some s \<Rightarrow> default_period s)
           (home_default_period u) arg (spec_default_order row u)"
    have g: "\<And>arg. get_default_settings deserialize db req arg =
               map_sum id (\<lambda>p. \<lparr>order = spec_default_order row u, period = p\<rparr>) (?P arg)"
      by (rule get_default_settings_logged_in [OF Some Inr])
    have "map_sum id order (get_default_settings deserialize db req order_arg) =
            map_sum id order (get_default_settings deserialize db req None)"
    proof (cases "?P order_arg")
      case (Inl e1)
      moreover from Inl have "?P None = Inl e1"
        by (rule spec_default_period_error)
      ultimately show ?thesis
        by (simp add: g)
    next
      case a: (Inr p1)
      show ?thesis
      proof (cases "?P None")
        case (Inl e2)
        then have "?P order_arg = Inl e2"
          by (rule spec_default_period_error)
        with a show ?thesis by simp
      next
        case (Inr p2)
        with a show ?thesis
          by (simp add: g)
      qed
    qed
    moreover have "\<forall>ds. get_default_settings deserialize db req order_arg = Inr ds \<longrightarrow>
      (\<exists>u row. user req = Some u \<and> lookup_user_settings db req = Inr row \<and>
         order ds = spec_default_order row u \<and>
         spec_default_period deserialize
           (case row of None \<Rightarrow> None | Some s \<Rightarrow> default_period s)
           (home_default_period u) order_arg (spec_default_order row u) = Inr (period ds))"
    proof (intro allI impI)
      fix ds
      assume "get_default_settings deserialize db req order_arg = Inr ds"
      then have m: "map_sum id (\<lambda>p. \<lparr>order = spec_default_order row u, period = p\<rparr>)
                   (?P order_arg) = Inr ds"
        by (simp only: g)
      then obtain p where p: "?P order_arg = Inr p"
        and ds: "ds = \<lparr>order = spec_default_order row u, period = p\<rparr>"
        by (cases "?P order_arg") auto
      from ds have "order ds = spec_default_order row u" "period ds = p" by simp_all
      with p Some Inr show "\<exists>u row. user req = Some u \<and> lookup_user_settings db req = Inr row \<and>
         order ds = spec_default_order row u \<and>
         spec_default_period deserialize
           (case row of None \<Rightarrow> None | Some s \<Rightarrow> default_period s)
           (home_default_period u) order_arg (spec_default_order row u) = Inr (period ds)"
        by blast
    qed
    ultimately show ?thesis by blast
  qed
qed

text \<open>
  C10. For every request, the order component of the result (and whether there is a
  result) is the same with an explicit order as without one. A returned pair holds the
  resolved default order: with \<open>rows\<close> the settings rows of the database for the viewer
  and the group of the context (none outside a group), the \<open>default_order\<close> of that row
  if it exists and is not null, else the viewer's \<open>home_default_order\<close> if not null, else
  "activity". The explicit order only enters the fallback of the period.
\<close>

theorem C10_explicit_order_not_returned:
  "map_sum id order (get_default_settings deserialize db req order_arg) =
     map_sum id order (get_default_settings deserialize db req None) \<and>
   (\<forall>ds. get_default_settings deserialize db req order_arg = Inr ds \<longrightarrow>
      (\<exists>u rows. user req = Some u \<and>
         rows =
           (case context' req of
              GroupContext g \<Rightarrow>
                filter (\<lambda>s. settings_user_id s = user_id u \<and> settings_group_id s = group_id g)
                  (user_group_settings db)
            | OtherContext \<Rightarrow> []) \<and>
         length rows \<le> 1 \<and>
         order ds = spec_default_order (case rows of [] \<Rightarrow> None | s # _ \<Rightarrow> Some s) u \<and>
         spec_default_period deserialize
           (case rows of [] \<Rightarrow> None | s # _ \<Rightarrow> default_period s)
           (home_default_period u) order_arg
           (spec_default_order (case rows of [] \<Rightarrow> None | s # _ \<Rightarrow> Some s) u) =
           Inr (period ds)))"
proof (intro conjI allI impI)
  show "map_sum id order (get_default_settings deserialize db req order_arg) =
          map_sum id order (get_default_settings deserialize db req None)"
    using default_settings_explicit_order [of deserialize db req order_arg] by (rule conjunct1)
next
  fix ds
  assume r: "get_default_settings deserialize db req order_arg = Inr ds"
  with default_settings_explicit_order [of deserialize db req order_arg]
  obtain u row where u: "user req = Some u"
    and l: "lookup_user_settings db req = Inr row"
    and o: "order ds = spec_default_order row u"
    and p: "spec_default_period deserialize
              (case row of None \<Rightarrow> None | Some s \<Rightarrow> default_period s)
              (home_default_period u) order_arg (spec_default_order row u) = Inr (period ds)"
    by blast
  define rows where "rows =
           (case context' req of
              GroupContext g \<Rightarrow>
                filter (\<lambda>s. settings_user_id s = user_id u \<and> settings_group_id s = group_id g)
                  (user_group_settings db)
            | OtherContext \<Rightarrow> [])"
  have "one_or_none rows = Inr row"
    using l by (simp only: lookup_user_settings_rows [OF u rows_def])
  then have "length rows \<le> 1 \<and> row = (case rows of [] \<Rightarrow> None | s # _ \<Rightarrow> Some s)"
    by (rule one_or_none_Inr)
  then have n: "length rows \<le> 1"
    and row: "row = (case rows of [] \<Rightarrow> None | s # _ \<Rightarrow> Some s)"
    by blast+
  have gp: "(case row of None \<Rightarrow> None | Some s \<Rightarrow> default_period s) =
            (case rows of [] \<Rightarrow> None | s # _ \<Rightarrow> default_period s)"
    unfolding row by (cases rows) simp_all
  from o have o': "order ds = spec_default_order (case rows of [] \<Rightarrow> None | s # _ \<Rightarrow> Some s) u"
    by (simp only: row)
  from p have p': "spec_default_period deserialize
           (case rows of [] \<Rightarrow> None | s # _ \<Rightarrow> default_period s)
           (home_default_period u) order_arg
           (spec_default_order (case rows of [] \<Rightarrow> None | s # _ \<Rightarrow> Some s) u) =
           Inr (period ds)"
    unfolding gp by (simp only: row)
  from u rows_def n o' p'
  show "\<exists>u rows. user req = Some u \<and>
         rows =
           (case context' req of
              GroupContext g \<Rightarrow>
                filter (\<lambda>s. settings_user_id s = user_id u \<and> settings_group_id s = group_id g)
                  (user_group_settings db)
            | OtherContext \<Rightarrow> []) \<and>
         length rows \<le> 1 \<and>
         order ds = spec_default_order (case rows of [] \<Rightarrow> None | s # _ \<Rightarrow> Some s) u \<and>
         spec_default_period deserialize
           (case rows of [] \<Rightarrow> None | s # _ \<Rightarrow> default_period s)
           (home_default_period u) order_arg
           (spec_default_order (case rows of [] \<Rightarrow> None | s # _ \<Rightarrow> Some s) u) =
           Inr (period ds)"
    by blast
qed

text \<open>
  The group's row stores the order "comments" and the viewer the global order "votes":
  with the explicit order "new" the pair returned holds "comments", not "new", and no
  period, the fallback of "new"; without an explicit order the order is the same.
\<close>

theorem C10_explicit_order_not_returned_witness:
  "user example_request = Some example_user \<and>
   context' example_request = GroupContext example_group \<and>
   filter (\<lambda>s. settings_user_id s = user_id example_user \<and>
                settings_group_id s = group_id example_group)
     (user_group_settings example_db) = [example_settings] \<and>
   default_order example_settings = Some COMMENTS \<and>
   home_default_order example_user = Some VOTES \<and>
   get_default_settings example_deserialize example_db example_request (Some NEW) =
     Inr \<lparr>order = COMMENTS, period = None\<rparr> \<and>
   map_sum id order (get_default_settings example_deserialize example_db example_request None) =
     Inr COMMENTS"
proof -
  have u: "user example_request = Some example_user"
    and c: "context' example_request = GroupContext example_group"
    by (simp_all add: example_request_def)
  have f: "filter (\<lambda>s. settings_user_id s = user_id example_user \<and>
                settings_group_id s = group_id example_group)
     (user_group_settings example_db) = [example_settings]"
    by (simp add: example_db_def example_settings_def example_user_def example_group_def)
  have d: "default_order example_settings = Some COMMENTS"
    by (simp add: example_settings_def)
  have h: "home_default_order example_user = Some VOTES"
    by (simp add: example_user_def)
  have "\<exists>ds. get_default_settings example_deserialize example_db example_request (Some NEW) =
          Inr ds"
    by (simp add: get_default_settings_def lookup_user_settings_def settings_rows_def
          example_request_def example_db_def example_settings_def example_user_def
          example_group_def)
  then obtain ds
    where r: "get_default_settings example_deserialize example_db example_request (Some NEW) =
                Inr ds"
    by blast
  note t = C10_explicit_order_not_returned
             [of example_deserialize example_db example_request "Some NEW"]
  from t r obtain u' rows where u': "user example_request = Some u'"
    and rows: "rows =
           (case context' example_request of
              GroupContext g \<Rightarrow>
                filter (\<lambda>s. settings_user_id s = user_id u' \<and> settings_group_id s = group_id g)
                  (user_group_settings example_db)
            | OtherContext \<Rightarrow> [])"
    and o: "order ds = spec_default_order (case rows of [] \<Rightarrow> None | s # _ \<Rightarrow> Some s) u'"
    and p: "spec_default_period example_deserialize
           (case rows of [] \<Rightarrow> None | s # _ \<Rightarrow> default_period s)
           (home_default_period u') (Some NEW)
           (spec_default_order (case rows of [] \<Rightarrow> None | s # _ \<Rightarrow> Some s) u') =
           Inr (period ds)"
    by blast
  from u u' have e: "u' = example_user" by simp
  have rows': "rows = [example_settings]"
    unfolding rows e by (simp add: c f)
  have "order ds = COMMENTS"
    using o by (simp add: rows' spec_default_order_def d)
  moreover have "period ds = None"
    using p
    by (simp add: rows' e spec_default_period_def spec_default_order_def present_def
          spec_fallback_period_def example_settings_def example_user_def)
  ultimately have ds: "ds = \<lparr>order = COMMENTS, period = None\<rparr>"
    by (cases ds) simp
  from t have "map_sum id order
      (get_default_settings example_deserialize example_db example_request None) =
    map_sum id order
      (get_default_settings example_deserialize example_db example_request (Some NEW))"
    by simp
  then have "map_sum id order
      (get_default_settings example_deserialize example_db example_request None) = Inr COMMENTS"
    by (simp add: r ds)
  with u c f d h r ds show ?thesis
    by simp
qed

section \<open>Filters of the query\<close>

lemma ltree_descendant_of_examples:
  "ltree_descendant_of (Ltree ''music.jazz'') (Ltree ''music'')"
  "ltree_descendant_of (Ltree ''music'') (Ltree ''music'')"
  "\<not> ltree_descendant_of (Ltree ''music'') (Ltree ''music.jazz'')"
  "\<not> ltree_descendant_of (Ltree ''musical'') (Ltree ''music'')"
  by (simp_all add: ltree_descendant_of_def)

lemma make_row_query_filter [simp]:
  "make_row db (query_filter q c) = make_row db q"
  by (simp add: make_row_def query_filter_def fun_eq_iff)

lemma joined_visits_query_filter [simp]:
  "joined_visits db (query_filter q c) = joined_visits db q"
  by (simp add: joined_visits_def query_filter_def fun_eq_iff)

lemma matches_query_filter:
  "matches db (query_filter q c) t \<longleftrightarrow> matches db q t \<and> satisfies db t c"
  by (simp add: matches_def query_filter_def)

lemma all_rows_query_filter_commute:
  "all_rows db (query_filter (query_filter q c1) c2) =
   all_rows db (query_filter (query_filter q c2) c1)"
proof -
  have "matches db (query_filter (query_filter q c1) c2) =
        matches db (query_filter (query_filter q c2) c1)"
    by (auto simp: matches_query_filter fun_eq_iff)
  then show ?thesis
    by (simp add: all_rows_def)
qed

lemma apply_filter_criterion:
  "apply_filter f q = map_sum id (query_filter q) (filter_criterion f)"
proof (cases f)
  case (InsideTimePeriod now p)
  then show ?thesis
    by (cases p; cases "datetime_sub now (timedelta (the p))")
       (simp_all add: inside_time_period_def)
qed (simp_all add: inside_groups_def has_tag_def is_pinned_q_def)

text \<open>A filter operation leaves the extra columns, the join and the request alone.\<close>

lemma apply_filter_keeps_columns:
  assumes "apply_filter f q = Inr q'"
  shows "extra_columns q' = extra_columns q" and "visit_join q' = visit_join q"
    and "request q' = request q"
proof -
  from assms obtain c where "q' = query_filter q c"
    by (cases "filter_criterion f") (auto simp: apply_filter_criterion)
  then show "extra_columns q' = extra_columns q" and "visit_join q' = visit_join q"
    and "request q' = request q"
    by (simp_all add: query_filter_def)
qed

text \<open>
  A period that is given restricts the rows to the topics created strictly after
  \<open>now - period\<close>, when that instant exists.
\<close>

lemma inside_time_period_Some:
  assumes "datetime_sub now (timedelta p) = Inr start"
  shows "result_set db (inside_time_period now (Some p) q) =
           Some (all_rows db (query_filter q (CreatedTimeGt start)))"
    and "matches db (query_filter q (CreatedTimeGt start)) t \<longleftrightarrow>
           matches db q t \<and> start < created_time t"
  using assms
  by (simp_all add: inside_time_period_def result_set_def matches_query_filter satisfies_def)

text \<open>
  C9. For every pair of the filter operations \<open>inside_groups\<close>, \<open>inside_time_period\<close>,
  \<open>has_tag\<close> and \<open>is_pinned\<close> (with any arguments) and every base query, the two orders of
  applying them end the same way: both raise, or both return a query with the same rows.
\<close>

theorem C9_filters_commute:
  "result_set db (bind_result (apply_filter f1 q) (apply_filter f2)) =
   result_set db (bind_result (apply_filter f2 q) (apply_filter f1))"
  by (cases "filter_criterion f1"; cases "filter_criterion f2")
     (simp_all add: apply_filter_criterion result_set_def all_rows_query_filter_commute)

text \<open>
  C1. The claim is that \<open>inside_time_period\<close> with a null period leaves the query as it
  is. The code reads \<open>period.timedelta\<close> first: with a null period the call raises
  \<open>AttributeError\<close>, for every query and clock reading, and there is no result set.
\<close>

theorem C1_inside_time_period_None_raises:
  "inside_time_period now None q = Inl AttributeError \<and>
   result_set db (inside_time_period now None q) = None"
  by (simp add: inside_time_period_def result_set_def)

text \<open>
  The view reaches that call: a listing ordered by "new" with no period given and none
  stored gets the default period \<open>None\<close> ("all time") and raises.
\<close>

lemma listing_new_without_period_raises:
  "map_sum id period
     (get_default_settings example_deserialize topic_db example_request (Some NEW)) = Inr None"
  "get_group_topics_query example_deserialize example_now topic_db example_request
     (Some NEW) None None = Inl AttributeError"
  by (simp_all add: get_group_topics_query_def get_default_settings_def
        lookup_user_settings_def settings_rows_def example_request_def topic_db_def
        example_user_def inside_groups_def inside_time_period_def)

text \<open>
  C5. The claim is that \<open>has_tag\<close> with a null tag leaves the result set as it is. The
  code turns the tag into a string first, so a null tag becomes the tree \<open>None\<close> and the
  query keeps only the topics tagged \<open>None\<close> or below: the base query of the example
  returns its topic, and after \<open>has_tag(None)\<close> it returns nothing.
\<close>

theorem C5_has_tag_None_filters:
  "result_set topic_db (Inr (TopicQuery_init example_request)) = Some [Entity example_topic] \<and>
   result_set topic_db (has_tag None (TopicQuery_init example_request)) = Some []"
  by (simp add: result_set_def all_rows_def has_tag_def query_filter_def TopicQuery_init_def
        matches_def satisfies_def joined_visits_def make_row_def topic_db_def example_topic_def
        ltree_descendant_of_def)

lemma has_tag_None:
  "has_tag None q = Inr (query_filter q (TagsDescendantOf ''None''))"
  by (simp add: has_tag_def)

lemma has_tag_Some_example:
  "result_set topic_db (has_tag (Some (Ltree ''music'')) (TopicQuery_init example_request)) =
     Some [Entity example_topic]"
  by (simp add: result_set_def all_rows_def has_tag_def query_filter_def TopicQuery_init_def
        matches_def satisfies_def joined_visits_def make_row_def topic_db_def example_topic_def
        ltree_descendant_of_def)

text \<open>
  The view passes its optional \<open>tag\<close> on as it is: a listing of the group with no tag
  selected, over the last 24 hours, is empty although the topic is an hour old.
\<close>

lemma listing_without_tag_is_empty:
  "result_set topic_db
     (get_group_topics_query example_deserialize example_now topic_db example_request
        (Some VOTES) (Some (Some (SimpleHoursPeriod 24))) None) = Some []"
  "result_set topic_db
     (get_group_topics_query example_deserialize example_now topic_db example_request
        (Some VOTES) (Some (Some (SimpleHoursPeriod 24))) (Some (Ltree ''music''))) =
     Some [Entity example_topic]"
  by (simp_all add: get_group_topics_query_def get_default_settings_def
        lookup_user_settings_def settings_rows_def example_request_def topic_db_def
        example_user_def example_group_def inside_groups_def inside_time_period_def
        has_tag_def apply_sort_option_def datetime_sub_def timedelta_def DATETIME_MAX_def
        example_now_def result_set_def all_rows_def query_filter_def TopicQuery_init_def
        matches_def satisfies_def joined_visits_def make_row_def example_topic_def
        ltree_descendant_of_def)

section \<open>The sort option\<close>

text \<open>
  C4, as amended. \<open>apply_sort_option\<close> never raises: for every value and direction it
  returns the query with the direction set, and with the sort column of the value when
  the value is one of the four known keys; for any other value the sort column selected
  before stays in effect.
\<close>

theorem C4_apply_sort_option_returns:
  "apply_sort_option sort' desc q =
     Inr (q\<lparr>sort_by :=
              (case sort' of
                 VOTES \<Rightarrow> Topic_num_votes
               | COMMENTS \<Rightarrow> Topic_num_comments
               | NEW \<Rightarrow> Topic_created_time
               | ACTIVITY \<Rightarrow> Topic_last_activity_time
               | OTHER name \<Rightarrow> sort_by q),
            sort_desc := desc\<rparr>)"
  by (cases sort') (simp_all add: apply_sort_option_def)

text \<open>
  The claim as stated fails: a value that is none of the four keys is not rejected, the
  call returns the query with the column it had.
\<close>

theorem C4_unknown_sort_option_counterexample:
  "OTHER ''hot'' \<notin> {VOTES, COMMENTS, NEW, ACTIVITY} \<and>
   apply_sort_option (OTHER ''hot'') False (TopicQuery_init example_request) =
     Inr \<lparr>request = example_request, criteria = [], visit_join = None, extra_columns = [],
          sort_by = Topic_last_activity_time, sort_desc = False\<rparr>"
  by (simp add: apply_sort_option_def TopicQuery_init_def)

section \<open>Annotating the rows\<close>

text \<open>
  C3. For every topic with \<open>n\<close> comments and every keyed row of it whose column
  \<open>num_comments\<close> holds the snapshot \<open>k\<close> of the viewer's visit, merging the row gives
  \<open>comments_since_last_visit = max (n - k) 0\<close>, which is never negative.
\<close>

theorem C3_comments_since_last_visit:
  assumes "getattr cols ''user_voted'' = Inr voted"
      and "getattr cols ''visit_time'' = Inr visited"
      and "getattr cols ''num_comments'' = Inr (PyInt k)"
  shows "map_sum id comments_since_last_visit (process_result (KeyedTuple t cols)) =
           Inr (Attr (PyInt (max (num_comments t - k) 0))) \<and>
         0 \<le> max (num_comments t - k) 0"
  using assms by (simp add: Let_def)

text \<open>
  Where the column comes from: for a viewer with visit tracking whose query had no extra
  column, the row that joins a topic with a visit row \<open>v\<close> holds the visit's time and
  its snapshot of the comment count.
\<close>

lemma tracked_row_columns:
  assumes "user (request q) = Some u" and "track_comment_visits u"
      and "extra_columns q = []"
  shows "\<exists>q' voted. attach_extra_data q = Inr q' \<and> visit_join q' = Some (user_id u) \<and>
           make_row db q' t (Some v) =
             KeyedTuple t [(''user_voted'', PyBool voted),
                           (''visit_time'', PyDatetime (visit_time v)),
                           (''num_comments'', PyInt (visit_num_comments v))]"
  using assms
  by (simp add: attach_extra_data_def attach_visit_data_def attach_vote_data_def
        add_columns_def outerjoin_TopicVisit_def make_row_def eval_column_def)

text \<open>
  The row of the example: the viewer voted and visited the topic at eight comments; the
  topic has five.
\<close>

lemma tracked_rows:
  "bind_result (attach_extra_data (TopicQuery_init example_request))
     (\<lambda>q. Inr (all_rows visit_db q)) =
     Inr [KeyedTuple example_topic
           [(''user_voted'', PyBool True),
            (''visit_time'', PyDatetime 63659998200000000),
            (''num_comments'', PyInt 8)]]"
  by (simp add: attach_extra_data_def attach_visit_data_def attach_vote_data_def
        add_columns_def outerjoin_TopicVisit_def TopicQuery_init_def example_request_def
        example_user_def all_rows_def matches_def joined_visits_def make_row_def
        eval_column_def visit_db_def example_visit_def example_topic_def)

theorem C3_comments_since_last_visit_witness:
  "getattr [(''user_voted'', PyBool True), (''visit_time'', PyDatetime 63659998200000000),
            (''num_comments'', PyInt 8)] ''user_voted'' = Inr (PyBool True) \<and>
   getattr [(''user_voted'', PyBool True), (''visit_time'', PyDatetime 63659998200000000),
            (''num_comments'', PyInt 8)] ''visit_time'' = Inr (PyDatetime 63659998200000000) \<and>
   getattr [(''user_voted'', PyBool True), (''visit_time'', PyDatetime 63659998200000000),
            (''num_comments'', PyInt 8)] ''num_comments'' = Inr (PyInt 8) \<and>
   num_comments example_topic = 5 \<and>
   map_sum id comments_since_last_visit
     (process_result (KeyedTuple example_topic
        [(''user_voted'', PyBool True), (''visit_time'', PyDatetime 63659998200000000),
         (''num_comments'', PyInt 8)])) = Inr (Attr (PyInt 0))"
proof -
  let ?cols = "[(''user_voted'', PyBool True), (''visit_time'', PyDatetime 63659998200000000),
            (''num_comments'', PyInt 8)]"
  have a: "getattr ?cols ''user_voted'' = Inr (PyBool True)"
    and b: "getattr ?cols ''visit_time'' = Inr (PyDatetime 63659998200000000)"
    and c: "getattr ?cols ''num_comments'' = Inr (PyInt 8)"
    by (simp_all add: getattr_def)
  have n: "num_comments example_topic = 5"
    by (simp add: example_topic_def)
  show ?thesis
    using a b c n C3_comments_since_last_visit [OF a b c, of example_topic]
    by simp
qed

lemma collect_process_entities:
  "collect (map process_result (map Entity ts)) = Inr (map anonymous_defaults ts)"
  by (induction ts) (simp_all add: anonymous_defaults_def)

lemma all_rows_bare:
  assumes "extra_columns q = []" and "visit_join q = None"
  shows "all_rows db q = map Entity (filter (matches db q) (topics db))"
proof -
  have "\<And>t. map (make_row db q t) (joined_visits db q t) = [Entity t]"
    using assms by (simp add: joined_visits_def make_row_def)
  then show ?thesis
    by (simp add: all_rows_def concat_map_singleton)
qed

text \<open>
  C7. For every topic, merging a bare topic row gives \<open>user_voted = False\<close>,
  \<open>last_visit_time = None\<close> and \<open>comments_since_last_visit = None\<close>; and a query of an
  anonymous viewer that has no extra column and no join gets none attached, so every topic
  it lists carries exactly these values.
\<close>

theorem C7_anonymous_defaults:
  "process_result (Entity t) =
     Inr (t\<lparr>user_voted := Attr (PyBool False), last_visit_time := Attr PyNone,
            comments_since_last_visit := Attr PyNone\<rparr>) \<and>
   (user (request q) = None \<and> extra_columns q = [] \<and> visit_join q = None \<longrightarrow>
      attach_extra_data q = Inr q \<and>
      annotated_topics db q =
        Inr (map (\<lambda>t. t\<lparr>user_voted := Attr (PyBool False), last_visit_time := Attr PyNone,
                          comments_since_last_visit := Attr PyNone\<rparr>)
               (filter (matches db q) (topics db))))"
proof -
  have "process_result (Entity t) =
     Inr (t\<lparr>user_voted := Attr (PyBool False), last_visit_time := Attr PyNone,
            comments_since_last_visit := Attr PyNone\<rparr>)"
    by simp
  moreover have "attach_extra_data q = Inr q \<and>
      annotated_topics db q =
        Inr (map (\<lambda>t. t\<lparr>user_voted := Attr (PyBool False), last_visit_time := Attr PyNone,
                          comments_since_last_visit := Attr PyNone\<rparr>)
               (filter (matches db q) (topics db)))"
    if a: "user (request q) = None" and b: "extra_columns q = []" and c: "visit_join q = None"
  proof -
    have e: "attach_extra_data q = Inr q"
      using a by (simp add: attach_extra_data_def)
    have "annotated_topics db q =
            collect (map process_result (map Entity (filter (matches db q) (topics db))))"
      by (simp add: annotated_topics_def e all_rows_bare [OF b c])
    also have "\<dots> = Inr (map anonymous_defaults (filter (matches db q) (topics db)))"
      by (rule collect_process_entities)
    finally show ?thesis
      using e by (simp add: anonymous_defaults_def [abs_def])
  qed
  ultimately show ?thesis by blast
qed

theorem C7_anonymous_defaults_witness:
  "user (request (TopicQuery_init anonymous_request)) = None \<and>
   extra_columns (TopicQuery_init anonymous_request) = [] \<and>
   visit_join (TopicQuery_init anonymous_request) = None \<and>
   annotated_topics visit_db (TopicQuery_init anonymous_request) =
     Inr [example_topic\<lparr>user_voted := Attr (PyBool False), last_visit_time := Attr PyNone,
            comments_since_last_visit := Attr PyNone\<rparr>]"
proof -
  have a: "user (request (TopicQuery_init anonymous_request)) = None"
    and b: "extra_columns (TopicQuery_init anonymous_request) = []"
    and c: "visit_join (TopicQuery_init anonymous_request) = None"
    by (simp_all add: TopicQuery_init_def anonymous_request_def)
  have m: "filter (matches visit_db (TopicQuery_init anonymous_request)) (topics visit_db) =
             [example_topic]"
    by (simp add: matches_def TopicQuery_init_def visit_db_def)
  show ?thesis
    using a b c
      C7_anonymous_defaults [of example_topic "TopicQuery_init anonymous_request" visit_db]
    by (simp add: m)
qed

section \<open>Rows without a visit\<close>

text \<open>
  With visit tracking disabled the two visit columns are literal NULLs and nothing is
  joined; with it enabled the viewer's visits are outer-joined.
\<close>

lemma attach_visit_data_untracked:
  assumes "user (request q) = Some u" and "\<not> track_comment_visits u"
  shows "attach_visit_data q =
           Inr (add_columns q [(''visit_time'', Null_literal), (''num_comments'', Null_literal)])"
    and "map_sum id visit_join (attach_visit_data q) = Inr (visit_join q)"
  using assms by (simp_all add: attach_visit_data_def add_columns_def)

lemma attach_visit_data_tracked:
  assumes "user (request q) = Some u" and "track_comment_visits u"
  shows "attach_visit_data q =
           Inr (add_columns (outerjoin_TopicVisit q (user_id u))
                 [(''visit_time'', TopicVisit_visit_time),
                  (''num_comments'', TopicVisit_num_comments)])"
  using assms by (simp add: attach_visit_data_def)

text \<open>
  A keyed row whose column \<open>num_comments\<close> is \<open>None\<close> (no visit row, or tracking
  disabled) leaves \<open>comments_since_last_visit\<close> as the topic object had it.
\<close>

lemma process_result_num_comments_None:
  assumes "getattr cols ''user_voted'' = Inr voted"
      and "getattr cols ''visit_time'' = Inr visited"
      and "getattr cols ''num_comments'' = Inr PyNone"
  shows "process_result (KeyedTuple t cols) =
           Inr (t\<lparr>user_voted := Attr voted, last_visit_time := Attr visited\<rparr>)"
    and "map_sum id comments_since_last_visit (process_result (KeyedTuple t cols)) =
           Inr (comments_since_last_visit t)"
  using assms by (simp_all add: Let_def)

text \<open>
  C8. The claim is that \<open>comments_since_last_visit\<close> is null exactly when the viewer has
  no visit row for the topic or has tracking disabled. The code does not assign the
  attribute in that case. For a viewer with tracking disabled, a topic object that
  carries a count of three from an earlier annotation keeps the three, and a topic object
  without the attribute stays without it; the same holds for a tracking viewer with no
  visit row.
\<close>

theorem C8_comments_since_last_visit_not_reset:
  "map_sum id (map comments_since_last_visit)
     (annotated_topics stale_db (TopicQuery_init untracked_request)) = Inr [Attr (PyInt 3)] \<and>
   map_sum id (map comments_since_last_visit)
     (annotated_topics topic_db (TopicQuery_init untracked_request)) = Inr [Unset] \<and>
   map_sum id (map comments_since_last_visit)
     (annotated_topics topic_db (TopicQuery_init example_request)) = Inr [Unset]"
  by (simp add: annotated_topics_def attach_extra_data_def attach_visit_data_def
        attach_vote_data_def add_columns_def outerjoin_TopicVisit_def TopicQuery_init_def
        untracked_request_def untracked_user_def example_request_def example_user_def
        all_rows_def matches_def joined_visits_def make_row_def eval_column_def
        stale_db_def stale_topic_def topic_db_def example_topic_def getattr_def Let_def)

end
